theory Spec2Isabelle
  imports Complex_Main "HOL-Library.Word" "HOL-Library.Sublist"
begin

section \<open>Data model of \<open>performance-monitor/src/main.cpp\<close>\<close>

text \<open>
  A \<open>double\<close> is carried around as a real number: the functions below only copy such
  values and compare them with 90, so NaN and the infinities are left out.
  \<open>size_t\<close> is the 64-bit unsigned word. The number of elements of a container is a
  natural number (a container never holds \<open>2 ^ 64\<close> elements, so \<open>size()\<close> is exact).
  A \<open>steady_clock::time_point\<close> is its tick count.
\<close>

type_synonym double = real
type_synonym size_t = "64 word"

record ProcessInfo =
  pid :: "32 word"
  name :: string
  cpu_percent :: double
  memory_bytes :: "64 word"
  status :: string

record MetricSnapshot =
  timestamp :: int
  cpu_usage :: double
  memory_usage :: double
  disk_usage :: double
  network_rx :: double
  network_tx :: double
  top_processes :: "ProcessInfo list"

text \<open>
  The \<open>Logger\<close> class is declared in \<open>logger.h\<close>; what it receives is kept as a list of
  entries, oldest first. A warning keeps the number that \<open>std::to_string\<close> would print
  between its text and the percent sign.
\<close>

datatype log_entry = Info string | Warn string double | Error string

text \<open>
  \<open>std::queue\<close> as a list, front first: \<open>push\<close> adds at the back, \<open>pop\<close> removes the
  front. \<open>pop\<close> is only ever called on a queue that is not empty.
\<close>

definition push :: "'a list \<Rightarrow> 'a \<Rightarrow> 'a list" where
  "push q x = q @ [x]"

definition pop :: "'a list \<Rightarrow> 'a list" where
  "pop q = tl q"

text \<open>
  The members of \<open>SystemMetrics\<close>. \<open>monitoring_thread\<close> is \<open>joinable()\<close> of the
  \<open>std::thread\<close> member: it holds exactly when the member owns a started thread that
  runs \<open>monitor_loop\<close> and has not been joined. One \<open>std::thread\<close> object owns at most
  one thread. The mutex is not a member of the model: every function below runs alone.
\<close>

record SystemMetrics =
  monitoring :: bool
  monitoring_thread :: bool
  metric_history :: "MetricSnapshot list"
  logger :: "log_entry list"

definition MAX_HISTORY_SIZE :: nat where
  "MAX_HISTORY_SIZE = 1000"


section \<open>Lifecycle: \<open>start_monitoring\<close>, \<open>stop_monitoring\<close>\<close>




section \<open>The snapshot builder: \<open>get_current_metrics\<close>\<close>

text \<open>
  What one call of \<open>get_current_metrics\<close> meets: the clock, the outcome of each platform
  reader (\<open>Inl e\<close> when the reader throws a \<open>std::exception\<close> whose \<open>what()\<close> is \<open>e\<close>),
  and the indeterminate contents that the five \<open>double\<close> members of the local
  \<open>MetricSnapshot snapshot;\<close> have before they are assigned. \<open>get_top_processes\<close> is the
  outcome of the call with count 10.
\<close>

record readings =
  steady_clock_now :: int
  get_cpu_usage :: "string + double"
  get_memory_usage :: "string + double"
  get_disk_usage :: "string + double"
  get_network_usage :: "string + double \<times> double"
  get_top_processes :: "string + ProcessInfo list"
  indet_cpu_usage :: double
  indet_memory_usage :: double
  indet_disk_usage :: double
  indet_network_rx :: double
  indet_network_tx :: double

text \<open>
  One \<open>try\<close> block holds the five reader calls in the order cpu, memory, disk, network,
  processes; the first reader that throws ends the block, the handler logs the error,
  and the snapshot is returned as it is at that moment. The second component is the
  logger after the call.
\<close>

definition get_current_metrics ::
  "readings \<Rightarrow> log_entry list \<Rightarrow> MetricSnapshot \<times> log_entry list" where
  "get_current_metrics env lg =
     (let snapshot = \<lparr>timestamp = steady_clock_now env,
                       cpu_usage = indet_cpu_usage env,
                       memory_usage = indet_memory_usage env,
                       disk_usage = indet_disk_usage env,
                       network_rx = indet_network_rx env,
                       network_tx = indet_network_tx env,
                       top_processes = []\<rparr>;
          handler = (\<lambda>s e. (s, lg @ [Error (''Error collecting metrics: '' @ e)]))
      in case get_cpu_usage env of
           Inl e \<Rightarrow> handler snapshot e
         | Inr c \<Rightarrow>
        (let snapshot = snapshot\<lparr>cpu_usage := c\<rparr> in
         case get_memory_usage env of
           Inl e \<Rightarrow> handler snapshot e
         | Inr m \<Rightarrow>
        (let snapshot = snapshot\<lparr>memory_usage := m\<rparr> in
         case get_disk_usage env of
           Inl e \<Rightarrow> handler snapshot e
         | Inr d \<Rightarrow>
        (let snapshot = snapshot\<lparr>disk_usage := d\<rparr> in
         case get_network_usage env of
           Inl e \<Rightarrow> handler snapshot e
         | Inr network \<Rightarrow>
        (let snapshot = snapshot\<lparr>network_rx := fst network, network_tx := snd network\<rparr> in
         case get_top_processes env of
           Inl e \<Rightarrow> handler snapshot e
         | Inr ps \<Rightarrow> (snapshot\<lparr>top_processes := ps\<rparr>, lg))))))"

section \<open>The history buffer: \<open>monitor_loop\<close> and \<open>get_history\<close>\<close>

text \<open>
  The body of one iteration of \<open>monitor_loop\<close>, statement by statement. The capacity is
  an argument \<open>cap\<close>; the program runs with \<open>cap = MAX_HISTORY_SIZE\<close>.
  \<open>tick_push\<close> is the state after \<open>metric_history.push(snapshot)\<close>, \<open>tick_evict\<close> the
  state after the \<open>if\<close> that follows it, \<open>tick_warn\<close> the state after the two threshold
  checks.
\<close>

definition tick_push :: "readings \<Rightarrow> SystemMetrics \<Rightarrow> SystemMetrics" where
  "tick_push env st =
     (let (snapshot, lg) = get_current_metrics env (logger st)
      in st\<lparr>metric_history := push (metric_history st) snapshot, logger := lg\<rparr>)"

definition tick_evict :: "nat \<Rightarrow> SystemMetrics \<Rightarrow> SystemMetrics" where
  "tick_evict cap st =
     (if length (metric_history st) > cap
      then st\<lparr>metric_history := pop (metric_history st)\<rparr> else st)"

definition tick_warn :: "MetricSnapshot \<Rightarrow> SystemMetrics \<Rightarrow> SystemMetrics" where
  "tick_warn snapshot st =
     (let st1 = (if cpu_usage snapshot > 90
                 then st\<lparr>logger := logger st @ [Warn ''High CPU usage: '' (cpu_usage snapshot)]\<rparr>
                 else st)
      in if memory_usage snapshot > 90
         then st1\<lparr>logger := logger st1 @ [Warn ''High memory usage: '' (memory_usage snapshot)]\<rparr>
         else st1)"

definition monitor_tick :: "nat \<Rightarrow> readings \<Rightarrow> SystemMetrics \<Rightarrow> SystemMetrics" where
  "monitor_tick cap env st =
     tick_warn (fst (get_current_metrics env (logger st))) (tick_evict cap (tick_push env st))"

text \<open>
  The loop runs while the flag is up. The list holds what the successive iterations
  meet; the model stops when the flag is down or when the list is used up. An iteration
  in which \<open>push\<close> itself throws (no memory left) is not part of the model.
\<close>

fun monitor_loop_cap :: "nat \<Rightarrow> readings list \<Rightarrow> SystemMetrics \<Rightarrow> SystemMetrics" where
  "monitor_loop_cap cap [] st = st"
| "monitor_loop_cap cap (env # envs) st =
     (if monitoring st then monitor_loop_cap cap envs (monitor_tick cap env st) else st)"

definition monitor_loop :: "readings list \<Rightarrow> SystemMetrics \<Rightarrow> SystemMetrics" where
  "monitor_loop = monitor_loop_cap MAX_HISTORY_SIZE"

text \<open>
  \<open>get_history\<close>: the \<open>for\<close> loop over the copy \<open>temp\<close> of the queue, then the function.
  The member queue is not written; the state is returned beside the vector.
\<close>

fun get_history_loop :: "nat \<Rightarrow> nat \<Rightarrow> 'a list \<Rightarrow> 'a list \<Rightarrow> 'a list" where
  "get_history_loop i items [] history = history"
| "get_history_loop i items (x # temp) history =
     (if i < items then get_history_loop (Suc i) items temp (history @ [x]) else history)"

definition get_history :: "SystemMetrics \<Rightarrow> size_t \<Rightarrow> MetricSnapshot list \<times> SystemMetrics" where
  "get_history st count =
     (let size = length (metric_history st);
          items = (if count = 0 \<or> unat count > size then size else unat count);
          temp = metric_history st
      in (get_history_loop 0 items temp [], st))"

text \<open>The snapshot that an iteration meeting \<open>env\<close> appends.\<close>

definition built :: "readings \<Rightarrow> MetricSnapshot" where
  "built env = fst (get_current_metrics env [])"

section \<open>The reading of the history query that takes the newest entries\<close>

text \<open>
  The \<open>n\<close> most recently inserted entries of a buffer kept oldest first, themselves
  oldest first. This is a statement of the specification, kept apart from the program,
  to compare \<open>get_history\<close> with.
\<close>

definition most_recent :: "nat \<Rightarrow> 'a list \<Rightarrow> 'a list" where
  "most_recent n q = drop (length q - n) q"

section \<open>Concrete inputs\<close>

text \<open>
  A snapshot that carries the timestamp \<open>t\<close>; what an iteration meets at time \<open>t\<close> when
  every reader succeeds; a monitor that is running with the queue \<open>q\<close>; the monitor
  after its first start; the members after a first start whose thread could not be
  created; and a call in which the memory reader throws while every other reader would
  succeed.
\<close>

definition example_snapshot :: "int \<Rightarrow> MetricSnapshot" where
  "example_snapshot t =
     \<lparr>timestamp = t, cpu_usage = 12, memory_usage = 34, disk_usage = 56,
      network_rx = 7, network_tx = 8, top_processes = []\<rparr>"

definition example_readings :: "int \<Rightarrow> readings" where
  "example_readings t =
     \<lparr>steady_clock_now = t,
      get_cpu_usage = Inr 12, get_memory_usage = Inr 34, get_disk_usage = Inr 56,
      get_network_usage = Inr (7, 8), get_top_processes = Inr [],
      indet_cpu_usage = - 1, indet_memory_usage = - 2, indet_disk_usage = - 3,
      indet_network_rx = - 4, indet_network_tx = - 5\<rparr>"

definition example_state :: "MetricSnapshot list \<Rightarrow> SystemMetrics" where
  "example_state q =
     \<lparr>monitoring = True, monitoring_thread = True, metric_history = q, logger = []\<rparr>"



definition example_process :: ProcessInfo where
  "example_process =
     \<lparr>pid = 1, name = ''init'', cpu_percent = 0, memory_bytes = 0, status = ''running''\<rparr>"

definition memory_fails :: readings where
  "memory_fails =
     (example_readings 5)\<lparr>get_memory_usage := Inl ''sysinfo'',
                           get_top_processes := Inr [example_process]\<rparr>"

section \<open>Facts about the builder\<close>

lemma get_current_metrics_fst:
  "fst (get_current_metrics env lg) = built env"
  by (simp add: built_def get_current_metrics_def Let_def split: sum.splits)

lemma timestamp_built: "timestamp (built env) = steady_clock_now env"
  by (simp add: built_def get_current_metrics_def Let_def split: sum.splits)

section \<open>Facts about the buffer\<close>

lemma metric_history_tick_warn: "metric_history (tick_warn s st) = metric_history st"
  by (simp add: tick_warn_def Let_def)

lemma monitoring_tick_warn: "monitoring (tick_warn s st) = monitoring st"
  by (simp add: tick_warn_def Let_def)

lemma metric_history_tick_push:
  "metric_history (tick_push env st) = metric_history st @ [built env]"
  by (simp add: tick_push_def push_def split_def Let_def get_current_metrics_fst)

lemma monitoring_tick_push: "monitoring (tick_push env st) = monitoring st"
  by (simp add: tick_push_def split_def Let_def)

lemma metric_history_tick_evict:
  "metric_history (tick_evict cap st) =
     (if length (metric_history st) > cap then tl (metric_history st) else metric_history st)"
  by (simp add: tick_evict_def pop_def)

lemma monitoring_tick_evict: "monitoring (tick_evict cap st) = monitoring st"
  by (simp add: tick_evict_def)

lemma metric_history_monitor_tick:
  "metric_history (monitor_tick cap env st) =
     (if length (metric_history st) \<ge> cap then tl (metric_history st @ [built env])
      else metric_history st @ [built env])"
  by (simp add: monitor_tick_def metric_history_tick_warn metric_history_tick_evict
      metric_history_tick_push less_Suc_eq_le)

lemma monitoring_monitor_tick: "monitoring (monitor_tick cap env st) = monitoring st"
  by (simp add: monitor_tick_def monitoring_tick_warn monitoring_tick_evict monitoring_tick_push)

lemma length_monitor_tick:
  "length (metric_history st) \<le> cap \<Longrightarrow>
   length (metric_history (monitor_tick cap env st)) = min (Suc (length (metric_history st))) cap"
  by (simp add: metric_history_monitor_tick)

lemma length_monitor_loop_cap:
  "monitoring st \<Longrightarrow> length (metric_history st) \<le> cap \<Longrightarrow>
   length (metric_history (monitor_loop_cap cap envs st)) =
     min (length (metric_history st) + length envs) cap"
proof (induction envs arbitrary: st)
  case Nil
  then show ?case by simp
next
  case (Cons env envs)
  have "length (metric_history (monitor_tick cap env st)) \<le> cap"
    using Cons.prems(2) by (simp add: length_monitor_tick)
  with Cons show ?case
    by (simp add: monitoring_monitor_tick length_monitor_tick)
qed

lemma metric_history_monitor_loop_cap:
  "monitoring st \<Longrightarrow> length (metric_history st) \<le> cap \<Longrightarrow>
   metric_history (monitor_loop_cap cap envs st) =
     drop (length (metric_history st) + length envs - cap) (metric_history st @ map built envs)"
proof (induction envs arbitrary: st)
  case Nil
  then show ?case by simp
next
  case (Cons env envs)
  let ?q = "metric_history st"
  let ?st = "monitor_tick cap env st"
  have len: "length (metric_history ?st) \<le> cap"
    using Cons.prems(2) by (simp add: length_monitor_tick)
  have mon: "monitoring ?st"
    using Cons.prems(1) by (simp add: monitoring_monitor_tick)
  have step: "metric_history (monitor_loop_cap cap (env # envs) st) =
      drop (length (metric_history ?st) + length envs - cap) (metric_history ?st @ map built envs)"
    using Cons.IH [OF mon len] Cons.prems(1) by simp
  show ?case
  proof (cases "length ?q = cap")
    case True
    then have q': "metric_history ?st = tl (?q @ [built env])"
      by (simp add: metric_history_monitor_tick)
    have n: "length ?q + length (env # envs) - cap = Suc (length envs)"
      using True by simp
    have "metric_history (monitor_loop_cap cap (env # envs) st) =
        drop (length envs) (tl (?q @ [built env]) @ map built envs)"
      using step q' True by simp
    also have "tl (?q @ [built env]) @ map built envs = tl (?q @ map built (env # envs))"
      by (cases ?q) simp_all
    also have "drop (length envs) (tl (?q @ map built (env # envs))) =
        drop (Suc (length envs)) (?q @ map built (env # envs))"
      by (simp only: drop_Suc)
    finally show ?thesis
      by (simp only: n)
  next
    case False
    with Cons.prems(2) have lt: "length ?q < cap" by simp
    then have q': "metric_history ?st = ?q @ [built env]"
      by (simp add: metric_history_monitor_tick)
    with lt step show ?thesis by simp
  qed
qed

lemma metric_history_from_empty:
  "monitoring st \<Longrightarrow> metric_history st = [] \<Longrightarrow>
   metric_history (monitor_loop_cap cap envs st) = drop (length envs - cap) (map built envs)"
  by (simp add: metric_history_monitor_loop_cap)

section \<open>Facts about the history query\<close>

lemma get_history_loop_take:
  "get_history_loop i items temp history = history @ take (items - i) temp"
  by (induction temp arbitrary: i history) (simp_all add: take_Cons' Suc_diff_Suc)

lemma fst_get_history:
  "fst (get_history st count) =
     take (if count = 0 \<or> unat count > length (metric_history st)
           then length (metric_history st) else unat count) (metric_history st)"
  by (simp add: get_history_def Let_def get_history_loop_take)

lemma snd_get_history: "snd (get_history st count) = st"
  by (simp add: get_history_def Let_def)

lemma get_history_0: "get_history st 0 = (metric_history st, st)"
  by (simp add: get_history_def Let_def get_history_loop_take)

lemma negative_count_large:
  fixes c :: size_t
  assumes "sint c < 0"
  shows "2 ^ 63 \<le> uint c"
proof -
  have lo: "- (2 ^ 63) \<le> sint c"
    using sint_ge [of c] by simp
  have "uint c = sint c mod 2 ^ 64"
    by (simp add: uint_sint take_bit_eq_mod)
  also have "\<dots> = (sint c + 2 ^ 64) mod 2 ^ 64"
    by simp
  also have "\<dots> = sint c + 2 ^ 64"
    using lo assms by (intro mod_pos_pos_trivial) simp_all
  finally show ?thesis
    using lo by simp
qed

lemma get_history_negative:
  fixes count :: size_t
  assumes "sint count < 0" and "length (metric_history st) \<le> MAX_HISTORY_SIZE"
  shows "get_history st count = (metric_history st, st)"
proof -
  have "2 ^ 63 \<le> uint count" using assms(1) by (rule negative_count_large)
  moreover have "int (length (metric_history st)) \<le> 1000"
    using assms(2) by (simp add: MAX_HISTORY_SIZE_def)
  moreover have "uint count = int (unat count)" by simp
  moreover have "(1000::int) < 2 ^ 63" by simp
  ultimately have "int (length (metric_history st)) < int (unat count)" by linarith
  then have "unat count > length (metric_history st)" by (simp only: of_nat_less_iff)
  then show ?thesis
    by (simp add: get_history_def Let_def get_history_loop_take)
qed

section \<open>Properties of the monitor\<close>

subsection \<open>C1: bounded size\<close>

text \<open>
  C1. The sampler loop starts on an empty history buffer. After each of its appends the
  buffer holds at most 1000 entries, and exactly \<open>min k 1000\<close> entries after the
  \<open>k\<close>-th append. (\<open>take k envs\<close> is the run up to and including the \<open>k\<close>-th iteration.)
\<close>

theorem history_size_bounded:
  assumes "monitoring st" and "metric_history st = []" and "k \<le> length envs"
  shows "length (metric_history (monitor_loop (take k envs) st)) = min k 1000 \<and>
         length (metric_history (monitor_loop (take k envs) st)) \<le> 1000"
  using assms
  by (simp add: monitor_loop_def length_monitor_loop_cap MAX_HISTORY_SIZE_def)

theorem history_size_bounded_witness:
  "length (metric_history
     (monitor_loop (replicate 1001 (example_readings 0)) (example_state []))) = 1000
   \<and> length (metric_history
     (monitor_loop (take 2 (replicate 1001 (example_readings 0))) (example_state []))) = 2"
  using history_size_bounded [of "example_state []" 1001 "replicate 1001 (example_readings 0)"]
    history_size_bounded [of "example_state []" 2 "replicate 1001 (example_readings 0)"]
  by (simp add: example_state_def)

subsection \<open>C2: first in, first out\<close>

text \<open>
  C2. On an empty buffer of capacity \<open>cap\<close>, \<open>cap + 1\<close> iterations append the snapshots
  \<open>s0 .. s_cap\<close>; afterwards the buffer holds \<open>s1 .. s_cap\<close> in this order, that is, all
  of them but the oldest, and \<open>get_history\<close> with count 0 returns exactly these. With
  capacity 3 and the timestamps 1, 2, 3, 4 the query returns the timestamps 2, 3, 4.
\<close>

theorem fifo_eviction:
  assumes "monitoring st" and "metric_history st = []" and "length envs = cap + 1"
  shows "metric_history (monitor_loop_cap cap envs st) = map built (tl envs) \<and>
         fst (get_history (monitor_loop_cap cap envs st) 0) = map built (tl envs)"
  using assms
  by (simp add: metric_history_from_empty get_history_0 drop_Suc map_tl)

theorem fifo_eviction_witness:
  "map timestamp
     (fst (get_history
        (monitor_loop_cap 3 (map example_readings [1, 2, 3, 4]) (example_state [])) 0)) = [2, 3, 4]
   \<and> metric_history
       (monitor_loop (example_readings 0 # replicate 1000 (example_readings 1)) (example_state []))
     = replicate 1000 (built (example_readings 1))"
  using fifo_eviction [of "example_state []" "map example_readings [1, 2, 3, 4]" 3]
    fifo_eviction [of "example_state []" "example_readings 0 # replicate 1000 (example_readings 1)"
      MAX_HISTORY_SIZE]
  by (simp add: example_state_def timestamp_built example_readings_def monitor_loop_def
      MAX_HISTORY_SIZE_def)

subsection \<open>C3: which entries a bounded query returns\<close>

text \<open>
  On the buffer with the timestamps 1, 2, 3 the query with count 2 returns the entries
  1 and 2, the two oldest, where the two most recently inserted ones are 2 and 3.
\<close>

theorem get_history_most_recent_counterexample:
  "fst (get_history (example_state [example_snapshot 1, example_snapshot 2, example_snapshot 3]) 2)
     = [example_snapshot 1, example_snapshot 2]
   \<and> most_recent 2 [example_snapshot 1, example_snapshot 2, example_snapshot 3]
     = [example_snapshot 2, example_snapshot 3]
   \<and> fst (get_history (example_state [example_snapshot 1, example_snapshot 2, example_snapshot 3]) 2)
     \<noteq> most_recent 2 [example_snapshot 1, example_snapshot 2, example_snapshot 3]"
  by (simp add: fst_get_history example_state_def most_recent_def example_snapshot_def)

text \<open>
  C3, as the program has it. For a buffer that holds \<open>m\<close> entries oldest first and a count
  \<open>n\<close> with \<open>0 < n < m\<close>, \<open>get_history\<close> returns the \<open>n\<close> oldest entries, the first \<open>n\<close> in
  insertion order, oldest first.
\<close>

theorem get_history_oldest:
  assumes "0 < unat count" and "unat count < length (metric_history st)"
  shows "fst (get_history st count) = take (unat count) (metric_history st)"
  using assms by (auto simp add: fst_get_history)

theorem get_history_oldest_witness:
  "fst (get_history (example_state [example_snapshot 1, example_snapshot 2, example_snapshot 3]) 2)
     = [example_snapshot 1, example_snapshot 2]"
  using get_history_oldest
    [of 2 "example_state [example_snapshot 1, example_snapshot 2, example_snapshot 3]"]
  by (simp add: example_state_def)

subsection \<open>C4: a reader that throws\<close>

text \<open>
  The memory reader throws; the disk reader would have produced 56 and the process
  reader one process. The snapshot that comes back has neither: its disk usage is what
  the unassigned member held, and its process list is empty.
\<close>

theorem builder_isolation_counterexample:
  "get_disk_usage memory_fails = Inr 56 \<and>
   disk_usage (fst (get_current_metrics memory_fails [])) \<noteq> 56 \<and>
   get_top_processes memory_fails = Inr [example_process] \<and>
   top_processes (fst (get_current_metrics memory_fails [])) \<noteq> [example_process]"
  by (simp add: memory_fails_def example_readings_def get_current_metrics_def)

text \<open>
  C4, as the program has it. \<open>get_current_metrics\<close> always returns a snapshot and lets no
  \<open>std::exception\<close> of a reader out. The timestamp is the capture time. A field carries
  the value of its own reader exactly when that reader and every reader before it, in
  the order cpu, memory, disk, network, processes, succeeded; the field of the first
  reader that throws and every later field are never assigned: the numbers keep what
  the default-initialised record held, and the process list stays empty. The logger
  receives one error entry, for the first reader that throws, and none when all succeed.
\<close>

theorem builder_first_failure:
  "timestamp (fst (get_current_metrics env lg)) = steady_clock_now env \<and>
   cpu_usage (fst (get_current_metrics env lg)) =
     (if isl (get_cpu_usage env) then indet_cpu_usage env else projr (get_cpu_usage env)) \<and>
   memory_usage (fst (get_current_metrics env lg)) =
     (if isl (get_cpu_usage env) \<or> isl (get_memory_usage env)
      then indet_memory_usage env else projr (get_memory_usage env)) \<and>
   disk_usage (fst (get_current_metrics env lg)) =
     (if isl (get_cpu_usage env) \<or> isl (get_memory_usage env) \<or> isl (get_disk_usage env)
      then indet_disk_usage env else projr (get_disk_usage env)) \<and>
   network_rx (fst (get_current_metrics env lg)) =
     (if isl (get_cpu_usage env) \<or> isl (get_memory_usage env) \<or> isl (get_disk_usage env) \<or>
         isl (get_network_usage env)
      then indet_network_rx env else fst (projr (get_network_usage env))) \<and>
   network_tx (fst (get_current_metrics env lg)) =
     (if isl (get_cpu_usage env) \<or> isl (get_memory_usage env) \<or> isl (get_disk_usage env) \<or>
         isl (get_network_usage env)
      then indet_network_tx env else snd (projr (get_network_usage env))) \<and>
   top_processes (fst (get_current_metrics env lg)) =
     (if isl (get_cpu_usage env) \<or> isl (get_memory_usage env) \<or> isl (get_disk_usage env) \<or>
         isl (get_network_usage env) \<or> isl (get_top_processes env)
      then [] else projr (get_top_processes env)) \<and>
   snd (get_current_metrics env lg) =
     (if isl (get_cpu_usage env)
      then lg @ [Error (''Error collecting metrics: '' @ projl (get_cpu_usage env))]
      else if isl (get_memory_usage env)
      then lg @ [Error (''Error collecting metrics: '' @ projl (get_memory_usage env))]
      else if isl (get_disk_usage env)
      then lg @ [Error (''Error collecting metrics: '' @ projl (get_disk_usage env))]
      else if isl (get_network_usage env)
      then lg @ [Error (''Error collecting metrics: '' @ projl (get_network_usage env))]
      else if isl (get_top_processes env)
      then lg @ [Error (''Error collecting metrics: '' @ projl (get_top_processes env))]
      else lg)"
  by (simp add: get_current_metrics_def Let_def split: sum.split)

theorem builder_first_failure_witness:
  "get_current_metrics memory_fails [] =
     (\<lparr>timestamp = 5, cpu_usage = 12, memory_usage = - 2, disk_usage = - 3,
       network_rx = - 4, network_tx = - 5, top_processes = []\<rparr>,
      [Error ''Error collecting metrics: sysinfo''])"
  using builder_first_failure [of memory_fails "[]"]
  by (simp add: memory_fails_def example_readings_def prod_eq_iff)

subsection \<open>C5: the order of push and pop\<close>

text \<open>
  A buffer that holds 1000 entries holds 1001 after the \<open>push\<close> of the next iteration,
  before the \<open>pop\<close>.
\<close>

theorem append_transient_counterexample:
  "length (metric_history (example_state (replicate 1000 (example_snapshot 0)))) = MAX_HISTORY_SIZE
   \<and> MAX_HISTORY_SIZE
     < length (metric_history
         (tick_push (example_readings 1) (example_state (replicate 1000 (example_snapshot 0)))))"
  by (simp add: metric_history_tick_push example_state_def MAX_HISTORY_SIZE_def)

text \<open>
  C5, as the program has it. When a snapshot is appended to a buffer that holds exactly
  \<open>cap\<close> entries, the new entry is pushed first, so that between the two steps the buffer
  holds \<open>cap + 1\<close> entries; the oldest entry is evicted next, and when the append is over
  the buffer holds \<open>cap\<close> entries again: the former ones without the oldest, then the new
  one.
\<close>

theorem push_then_evict:
  assumes "length (metric_history st) = cap"
  shows "length (metric_history (tick_push env st)) = cap + 1 \<and>
         metric_history (tick_evict cap (tick_push env st)) = tl (metric_history st @ [built env]) \<and>
         metric_history (monitor_tick cap env st) = tl (metric_history st @ [built env]) \<and>
         length (metric_history (monitor_tick cap env st)) = cap"
  using assms
  by (simp add: metric_history_tick_push metric_history_tick_evict metric_history_monitor_tick)

theorem push_then_evict_witness:
  "length (metric_history
     (tick_push (example_readings 1) (example_state (replicate 1000 (example_snapshot 0))))) = 1001
   \<and> length (metric_history
     (monitor_tick MAX_HISTORY_SIZE (example_readings 1)
        (example_state (replicate 1000 (example_snapshot 0))))) = 1000"
  using push_then_evict [of "example_state (replicate 1000 (example_snapshot 0))" MAX_HISTORY_SIZE
      "example_readings 1"]
  by (simp add: example_state_def MAX_HISTORY_SIZE_def)

subsection \<open>C6: order preservation\<close>

text \<open>
  C6. The sampler loop starts on an empty buffer and the clock does not go back from one
  iteration to the next. Then, after any number of iterations, \<open>get_history\<close> with count 0
  returns all retained entries: the last (at most 1000) appended snapshots in the order
  of their insertion, with timestamps that never decrease.
\<close>

theorem history_order_preserved:
  assumes "monitoring st" and "metric_history st = []"
    and "sorted (map steady_clock_now envs)"
  shows "fst (get_history (monitor_loop envs st) 0) = metric_history (monitor_loop envs st) \<and>
         metric_history (monitor_loop envs st) =
           drop (length envs - MAX_HISTORY_SIZE) (map built envs) \<and>
         sorted (map timestamp (fst (get_history (monitor_loop envs st) 0)))"
proof -
  have ts: "map timestamp (map built envs) = map steady_clock_now envs"
    by (simp add: timestamp_built)
  have q: "metric_history (monitor_loop envs st) =
      drop (length envs - MAX_HISTORY_SIZE) (map built envs)"
    using assms(1,2) by (simp add: monitor_loop_def metric_history_from_empty)
  have "map timestamp (metric_history (monitor_loop envs st)) =
      drop (length envs - MAX_HISTORY_SIZE) (map steady_clock_now envs)"
    unfolding q drop_map [symmetric] ts ..
  then have "sorted (map timestamp (metric_history (monitor_loop envs st)))"
    using assms(3) by simp
  with q show ?thesis
    by (simp add: get_history_0)
qed

theorem history_order_preserved_witness:
  "map timestamp
     (fst (get_history (monitor_loop (map example_readings [1, 2, 2, 5]) (example_state [])) 0))
     = [1, 2, 2, 5]
   \<and> sorted (map timestamp
     (fst (get_history (monitor_loop (map example_readings [1, 2, 2, 5]) (example_state [])) 0)))"
  using history_order_preserved [of "example_state []" "map example_readings [1, 2, 2, 5]"]
  by (simp add: example_state_def timestamp_built example_readings_def MAX_HISTORY_SIZE_def)

subsection \<open>C7: idempotent lifecycle\<close>




subsection \<open>C8: a negative count\<close>

text \<open>
  The count \<open>- 1\<close>, as a \<open>size_t\<close>, is answered with the entries of the buffer: two
  different buffers give two different answers, and neither answer is an error.
\<close>

theorem negative_count_counterexample:
  "sint (- 1 :: size_t) < 0 \<and>
   fst (get_history (example_state [example_snapshot 1, example_snapshot 2]) (- 1))
     = [example_snapshot 1, example_snapshot 2] \<and>
   fst (get_history (example_state [example_snapshot 1]) (- 1)) = [example_snapshot 1]"
  by (simp add: get_history_negative example_state_def MAX_HISTORY_SIZE_def)

text \<open>
  C8, as the program has it. The count of \<open>get_history\<close> is a \<open>size_t\<close>. A count whose bits
  are those of a negative 64-bit integer is larger than the size of any buffer of at most
  \<open>MAX_HISTORY_SIZE\<close> entries, and is answered as the count 0 is: with all retained
  entries. The buffer is left as it was.
\<close>

theorem negative_count_returns_all:
  fixes count :: size_t
  assumes "sint count < 0" and "length (metric_history st) \<le> MAX_HISTORY_SIZE"
  shows "get_history st count = (metric_history st, st) \<and>
         get_history st count = get_history st 0"
  using assms by (simp add: get_history_negative get_history_0)

theorem negative_count_returns_all_witness:
  "get_history (example_state [example_snapshot 1, example_snapshot 2]) (- 1) =
     ([example_snapshot 1, example_snapshot 2],
      example_state [example_snapshot 1, example_snapshot 2])"
  using negative_count_returns_all
    [of "- 1" "example_state [example_snapshot 1, example_snapshot 2]"]
  by (simp add: example_state_def MAX_HISTORY_SIZE_def)

subsection \<open>C10: a bounded query is a prefix of the full one\<close>

text \<open>
  C10. For every buffer and every count \<open>n > 0\<close>, \<open>get_history\<close> with count \<open>n\<close> returns the
  first \<open>min n size\<close> entries of what it returns with count 0, a prefix of the full
  retained history, and the query leaves the state of the monitor as it was.
\<close>

theorem get_history_prefix:
  assumes "count \<noteq> 0"
  shows "fst (get_history st count) =
           take (min (unat count) (length (metric_history st))) (fst (get_history st 0)) \<and>
         prefix (fst (get_history st count)) (fst (get_history st 0)) \<and>
         snd (get_history st count) = st \<and> snd (get_history st 0) = st"
  using assms
  by (auto simp add: fst_get_history snd_get_history take_is_prefix min_def)

theorem get_history_prefix_witness:
  "fst (get_history (example_state [example_snapshot 1, example_snapshot 2, example_snapshot 3]) 2)
     = take 2 (fst (get_history
         (example_state [example_snapshot 1, example_snapshot 2, example_snapshot 3]) 0))
   \<and> fst (get_history (example_state [example_snapshot 1, example_snapshot 2]) 100)
     = [example_snapshot 1, example_snapshot 2]"
  using get_history_prefix
    [of 2 "example_state [example_snapshot 1, example_snapshot 2, example_snapshot 3]"]
    get_history_prefix [of 100 "example_state [example_snapshot 1, example_snapshot 2]"]
  by (simp add: example_state_def get_history_0)

end
